theory Spec2Isabelle
  imports Complex_Main
begin

section \<open>Values, errors and the geometry engine's mesh\<close>

text \<open>
  The module \<^verbatim>\<open>brainrender/actor.py\<close> wraps a mesh of the geometry engine in an
  \<^verbatim>\<open>Actor\<close> and derives labels and silhouettes from it. Python exceptions are values
  of \<open>py_error\<close>; a call that may raise returns \<open>py_error + 'a\<close> with \<open>Inl\<close> the
  exception. Coordinates are exact reals: rounding of the engine's floating-point
  arrays is outside this model.
\<close>

datatype py_error = AttributeError | KeyError | IndexError | ValueError | TypeError

text \<open>
  Dynamically typed Python values that the code passes around without looking inside
  (colours, text sizes, radii, label texts, attribute values). \<open>CallableV v\<close> is a
  bound method without arguments, given by the value \<open>v\<close> that calling it returns.
\<close>

datatype pyval =
    NoneV
  | BoolV bool
  | IntV int
  | FloatV real
  | StrV string
  | ListV "pyval list"
  | CallableV pyval

text \<open>Python truthiness, as tested by \<^verbatim>\<open>if color:\<close> and \<^verbatim>\<open>if alpha:\<close>.\<close>

fun truthy :: "pyval \<Rightarrow> bool" where
  "truthy NoneV = False"
| "truthy (BoolV b) = b"
| "truthy (IntV i) = (i \<noteq> 0)"
| "truthy (FloatV r) = (r \<noteq> 0)"
| "truthy (StrV s) = (s \<noteq> [])"
| "truthy (ListV vs) = (vs \<noteq> [])"
| "truthy (CallableV v) = True"

type_synonym point = "real \<times> real \<times> real"

text \<open>
  The engine's mesh object: its vertex array, its rendering attributes (colour,
  opacity, line width) and \<open>attrs\<close>, the namespace that \<^verbatim>\<open>hasattr\<close> and \<^verbatim>\<open>getattr\<close>
  see on the object, as a dictionary from attribute name to value.
\<close>

record mesh =
  vertices :: "point list"
  color :: pyval
  alpha :: pyval
  linewidth :: pyval
  attrs :: "(string \<times> pyval) list"

text \<open>The setters \<^verbatim>\<open>mesh.c(color)\<close>, \<^verbatim>\<open>mesh.alpha(alpha)\<close> and \<^verbatim>\<open>mesh.lw(lw)\<close>.\<close>

definition mesh_c :: "pyval \<Rightarrow> mesh \<Rightarrow> mesh" where
  "mesh_c col m = m\<lparr>color := col\<rparr>"

definition mesh_alpha :: "pyval \<Rightarrow> mesh \<Rightarrow> mesh" where
  "mesh_alpha al m = m\<lparr>alpha := al\<rparr>"


definition mesh_hasattr :: "mesh \<Rightarrow> string \<Rightarrow> bool" where
  "mesh_hasattr m attr = (case map_of (attrs m) attr of None \<Rightarrow> False | Some v \<Rightarrow> True)"

definition mesh_getattr :: "mesh \<Rightarrow> string \<Rightarrow> py_error + pyval" where
  "mesh_getattr m attr =
     (case map_of (attrs m) attr of None \<Rightarrow> Inl AttributeError | Some v \<Rightarrow> Inr v)"

section \<open>The Actor\<close>

text \<open>
  An \<^verbatim>\<open>Actor\<close> instance after \<^verbatim>\<open>__init__\<close>. The fields \<open>mesh\<close>, \<open>name\<close>,
  \<open>br_class\<close>, \<open>is_text\<close> are set by the constructor; \<open>needs_label\<close>,
  \<open>needs_silhouette\<close>, \<open>is_transformed\<close>, \<open>is_added\<close>, \<open>labels\<close> and \<open>silhouette\<close>
  are the class attributes \<^verbatim>\<open>_needs_label\<close>, \<^verbatim>\<open>_needs_silhouette\<close>,
  \<^verbatim>\<open>_is_transformed\<close>, \<^verbatim>\<open>_is_added\<close>, \<^verbatim>\<open>labels\<close>, \<^verbatim>\<open>silhouette\<close> with their
  defaults. The last four fields are attributes that the class does not declare and
  that other code attaches to an instance: \<open>umesh\<close> is \<^verbatim>\<open>_mesh\<close>, \<open>label_str\<close> is
  \<^verbatim>\<open>_label_str\<close>, \<open>label_kwargs\<close> is \<^verbatim>\<open>_label_kwargs\<close> and \<open>silhouette_kwargs\<close> is
  \<^verbatim>\<open>_silhouette_kwargs\<close>; \<open>None\<close> means the attribute is not in the instance's
  \<^verbatim>\<open>__dict__\<close>.
\<close>

record label_config =
  kw_size :: "pyval option"
  kw_color :: "pyval option"
  kw_radius :: "pyval option"
  kw_xoffset :: "real option"
  kw_yoffset :: "real option"
  kw_zoffset :: "real option"

datatype actor = Actor
  (mesh: mesh)
  (name: string)
  (br_class: string)
  (is_text: bool)
  (needs_label: bool)
  (needs_silhouette: bool)
  (is_transformed: bool)
  (is_added: bool)
  (labels: "actor list")
  (silhouette: "actor option")
  (umesh: "mesh option")
  (label_str: "pyval option")
  (label_kwargs: "label_config option")
  (silhouette_kwargs: "(string \<times> pyval) list option")

text \<open>Attribute assignments \<^verbatim>\<open>self.x = v\<close>, one per attribute that the methods assign.\<close>

fun set_mesh :: "mesh \<Rightarrow> actor \<Rightarrow> actor" where
  "set_mesh v (Actor m n c t nl ns tr ad ls s um lstr lkw skw) =
     Actor v n c t nl ns tr ad ls s um lstr lkw skw"

fun set_needs_label :: "bool \<Rightarrow> actor \<Rightarrow> actor" where
  "set_needs_label v (Actor m n c t nl ns tr ad ls s um lstr lkw skw) =
     Actor m n c t v ns tr ad ls s um lstr lkw skw"



fun set_labels :: "actor list \<Rightarrow> actor \<Rightarrow> actor" where
  "set_labels v (Actor m n c t nl ns tr ad ls s um lstr lkw skw) =
     Actor m n c t nl ns tr ad v s um lstr lkw skw"


text \<open>\<^verbatim>\<open>name or "Actor"\<close>: the default replaces \<^verbatim>\<open>None\<close> and the empty string.\<close>

definition str_or :: "string option \<Rightarrow> string \<Rightarrow> string" where
  "str_or s d = (case s of None \<Rightarrow> d | Some t \<Rightarrow> (if t = [] then d else t))"

text \<open>
  \<^verbatim>\<open>Actor.__init__(mesh, name, br_class, is_text, color, alpha)\<close>. The mesh handed in
  is the object the actor keeps, so the setters change the caller's mesh: the mesh
  of the result is that mesh after the call.
\<close>

definition Actor_init ::
  "mesh \<Rightarrow> string option \<Rightarrow> string option \<Rightarrow> bool \<Rightarrow> pyval \<Rightarrow> pyval \<Rightarrow> actor" where
  "Actor_init m nm cls is_txt col al =
     (let m1 = (if truthy col then mesh_c col m else m);
          m2 = (if truthy al then mesh_alpha al m1 else m1)
      in Actor m2 (str_or nm ''Actor'') (str_or cls ''None'') is_txt
           False False False False [] None None None None None)"

text \<open>\<^verbatim>\<open>Actor.make_actor(mesh, name, br_class)\<close>.\<close>

definition make_actor :: "mesh \<Rightarrow> string \<Rightarrow> string \<Rightarrow> actor" where
  "make_actor m nm cls = Actor_init m (Some nm) (Some cls) False NoneV NoneV"

text \<open>
  \<^verbatim>\<open>Actor.__getattr__(attr)\<close>, which Python calls when the instance and the class
  have no attribute \<open>attr\<close>. Every value of type \<open>actor\<close> has its \<open>mesh\<close>, so the
  guard \<^verbatim>\<open>"mesh" not in self.__dict__\<close> is false here. With \<^verbatim>\<open>_mesh\<close> attached,
  \<^verbatim>\<open>getattr(self.__dict__["_mesh"], attr)\<close> raises the mesh's own
  \<^verbatim>\<open>AttributeError\<close>, which \<^verbatim>\<open>except KeyError\<close> does not catch.
\<close>

definition mesh_attributes :: "string list" where
  "mesh_attributes = [''center_of_mass'']"

definition Actor_getattr :: "actor \<Rightarrow> string \<Rightarrow> py_error + pyval" where
  "Actor_getattr self attr =
     (if attr \<in> set mesh_attributes then
        (if mesh_hasattr (mesh self) attr then mesh_getattr (mesh self) attr
         else Inl AttributeError)
      else
        (case umesh self of
           Some m2 \<Rightarrow> mesh_getattr m2 attr
         | None \<Rightarrow>
             (if mesh_hasattr (mesh self) attr then mesh_getattr (mesh self) attr
              else Inl AttributeError)))"

section \<open>External collaborators\<close>

text \<open>
  The atlas (\<^verbatim>\<open>brainglobe_atlasapi\<close>), the anatomical space (\<^verbatim>\<open>brainglobe_space\<close>)
  and the geometry engine (\<^verbatim>\<open>vedo\<close>) are libraries outside this repository. The
  code is modelled over their interfaces: an \<open>atlas\<close> and an \<open>externals\<close> value
  hold the library functions the code calls. The atlas calls and the axis
  resolution may raise; the engine's geometry operations are taken to return.
\<close>

record anatomical_space =
  get_axis_idx :: "string \<Rightarrow> py_error + int"

record atlas =
  hemisphere_from_coords :: "point \<Rightarrow> py_error + string"
  mirror_point_across_hemispheres :: "point \<Rightarrow> py_error + point"
  space :: anatomical_space

record externals =
  center_of_mass :: "mesh \<Rightarrow> point"
  closest_point :: "mesh \<Rightarrow> point \<Rightarrow> point"
  mirror_mesh :: "mesh \<Rightarrow> string \<Rightarrow> point option \<Rightarrow> mesh"
  silhouette_mesh :: "mesh \<Rightarrow> mesh"
  rotate_x :: "real \<Rightarrow> mesh \<Rightarrow> mesh"
  rotate_y :: "real \<Rightarrow> mesh \<Rightarrow> mesh"
  compute_normals :: "mesh \<Rightarrow> mesh"
  Text3D :: "pyval \<Rightarrow> point \<Rightarrow> pyval \<Rightarrow> pyval \<Rightarrow> real \<Rightarrow> mesh"
  Sphere :: "point \<Rightarrow> pyval \<Rightarrow> pyval \<Rightarrow> nat \<Rightarrow> mesh"
  AnatomicalSpace :: "string \<Rightarrow> anatomical_space"

section \<open>The label synthesizer \<^verbatim>\<open>make_actor_label\<close>\<close>

datatype 'a one_or_many = Single 'a | Several "'a list"

text \<open>
  Modelled from the spec: \<^verbatim>\<open>brainrender._utils.listify\<close> is not among the sources.
  The spec gives the synthesizer "one or more actors and matching label strings":
  a single object stands for the list holding it, a list for itself. \<open>listify\<close>
  is the function on the \<^verbatim>\<open>actors\<close> argument, \<open>listify_val\<close> on the \<^verbatim>\<open>labels\<close>
  argument, where a Python list is a \<open>ListV\<close>.
\<close>

fun listify :: "'a one_or_many \<Rightarrow> 'a list" where
  "listify (Single x) = [x]"
| "listify (Several xs) = xs"

fun listify_val :: "pyval \<Rightarrow> pyval list" where
  "listify_val (ListV vs) = vs"
| "listify_val v = [v]"

definition default_offset :: point where
  "default_offset = (0, - 200, 100)"

definition default_color :: pyval where
  "default_color = ListV [FloatV 0.2, FloatV 0.2, FloatV 0.2]"

definition padd :: "point \<Rightarrow> point \<Rightarrow> point" where
  "padd p q = (case p of (a, b, c) \<Rightarrow> case q of (d, e, f) \<Rightarrow> (a + d, b + e, c + f))"

definition pmul :: "point \<Rightarrow> point \<Rightarrow> point" where
  "pmul p q = (case p of (a, b, c) \<Rightarrow> case q of (d, e, f) \<Rightarrow> (a * d, b * e, c * f))"

text \<open>\<^verbatim>\<open>p[2] = -p[2]\<close>.\<close>

definition neg_third :: "point \<Rightarrow> point" where
  "neg_third p = (case p of (a, b, c) \<Rightarrow> (a, b, - c))"

definition second_coord :: "point \<Rightarrow> real" where
  "second_coord p = (case p of (a, b, c) \<Rightarrow> b)"

text \<open>
  \<^verbatim>\<open>np.argmin\<close>: the index of the first occurrence of the minimum; it raises
  \<^verbatim>\<open>ValueError\<close> on an empty array.
\<close>

fun argmin_from :: "nat \<Rightarrow> real \<Rightarrow> nat \<Rightarrow> real list \<Rightarrow> nat" where
  "argmin_from best bv i [] = best"
| "argmin_from best bv i (x # xs) =
     (if x < bv then argmin_from i x (Suc i) xs else argmin_from best bv (Suc i) xs)"

fun argmin :: "real list \<Rightarrow> py_error + nat" where
  "argmin [] = Inl ValueError"
| "argmin (x # xs) = Inr (argmin_from 0 x 1 xs)"

text \<open>
  Lines 52 to 55: the vertex array is copied, so the mesh keeps its vertices;
  \<^verbatim>\<open>points[:, 1]\<close> is the column of second coordinates.
\<close>

definition anchor_point :: "point \<Rightarrow> point list \<Rightarrow> py_error + point" where
  "anchor_point offset points =
     (case argmin (map second_coord points) of
        Inl e \<Rightarrow> Inl e
      | Inr i \<Rightarrow> Inr (neg_third (padd (points ! i) (padd offset default_offset))))"

text \<open>
  Lines 57 to 61: the \<^verbatim>\<open>try\<close> block around the two atlas calls catches
  \<^verbatim>\<open>IndexError\<close> only and leaves \<open>point\<close> as it was.
\<close>

definition hemisphere_correct :: "atlas \<Rightarrow> point \<Rightarrow> py_error + point" where
  "hemisphere_correct atl p =
     (case hemisphere_from_coords atl p of
        Inl e \<Rightarrow> (if e = IndexError then Inr p else Inl e)
      | Inr h \<Rightarrow>
          (if h = ''left'' then
             (case mirror_point_across_hemispheres atl p of
                Inl e \<Rightarrow> (if e = IndexError then Inr p else Inl e)
              | Inr q \<Rightarrow> Inr q)
           else Inr p))"

definition pyval_of_point :: "point \<Rightarrow> pyval" where
  "pyval_of_point p = (case p of (a, b, c) \<Rightarrow> ListV [FloatV a, FloatV b, FloatV c])"

definition mesh_setattr :: "string \<Rightarrow> pyval \<Rightarrow> mesh \<Rightarrow> mesh" where
  "mesh_setattr attr v m = m\<lparr>attrs := (attr, v) # filter (\<lambda>kv. fst kv \<noteq> attr) (attrs m)\<rparr>"

text \<open>
  \<^verbatim>\<open>actor.closest_point(point)\<close>: \<^verbatim>\<open>Actor\<close> defines no \<^verbatim>\<open>closest_point\<close>, so the
  call goes through \<^verbatim>\<open>__getattr__\<close>, which hands out the method of \<^verbatim>\<open>_mesh\<close> when
  one is attached and of \<^verbatim>\<open>mesh\<close> otherwise.
\<close>

definition actor_closest_point :: "externals \<Rightarrow> actor \<Rightarrow> point \<Rightarrow> point" where
  "actor_closest_point env self p =
     closest_point env (case umesh self of Some m2 \<Rightarrow> m2 | None \<Rightarrow> mesh self) p"

text \<open>The text object of lines 64 to 67 and the marker of lines 71 to 76.\<close>

definition label_text :: "externals \<Rightarrow> pyval \<Rightarrow> pyval \<Rightarrow> pyval \<Rightarrow> point \<Rightarrow> mesh" where
  "label_text env label sz col p =
     rotate_y env 180 (rotate_x env 180 (Text3D env label (pmul p (- 1, - 1, - 1)) sz col 0.1))"

definition label_marker :: "externals \<Rightarrow> actor \<Rightarrow> pyval \<Rightarrow> pyval \<Rightarrow> point \<Rightarrow> mesh" where
  "label_marker env act radius col p =
     (let pt = neg_third (actor_closest_point env act p);
          sphere = Sphere env pt radius col 8
      in compute_normals env (mesh_setattr ''ancor'' (pyval_of_point pt) sphere))"

text \<open>
  One pass through the body of the \<^verbatim>\<open>for\<close> loop. The loop's variables are
  \<open>color\<close>, assigned when it is \<^verbatim>\<open>None\<close>, and the list \<open>new_actors\<close>.
\<close>

definition label_iteration ::
  "externals \<Rightarrow> atlas \<Rightarrow> pyval \<Rightarrow> pyval \<Rightarrow> point \<Rightarrow>
     pyval \<times> mesh list \<Rightarrow> actor \<times> pyval \<Rightarrow> py_error + pyval \<times> mesh list" where
  "label_iteration env atl sz radius offset st pair =
     (case st of (color0, new_actors) \<Rightarrow>
      case pair of (act, label) \<Rightarrow>
        (let col = (if color0 = NoneV then default_color else color0) in
         case anchor_point offset (vertices (mesh act)) of
           Inl e \<Rightarrow> Inl e
         | Inr p0 \<Rightarrow>
             (case hemisphere_correct atl p0 of
                Inl e \<Rightarrow> Inl e
              | Inr p \<Rightarrow>
                  (let new1 = new_actors @ [label_text env label sz col p] in
                   if radius \<noteq> NoneV
                   then Inr (col, new1 @ [label_marker env act radius col p])
                   else Inr (col, new1)))))"

fun label_loop ::
  "externals \<Rightarrow> atlas \<Rightarrow> pyval \<Rightarrow> pyval \<Rightarrow> point \<Rightarrow>
     pyval \<times> mesh list \<Rightarrow> (actor \<times> pyval) list \<Rightarrow> py_error + pyval \<times> mesh list" where
  "label_loop env atl sz radius offset st [] = Inr st"
| "label_loop env atl sz radius offset st (pair # pairs) =
     (case label_iteration env atl sz radius offset st pair of
        Inl e \<Rightarrow> Inl e
      | Inr st' \<Rightarrow> label_loop env atl sz radius offset st' pairs)"

text \<open>Line 42: \<^verbatim>\<open>offset = [-yoffset, -zoffset, xoffset]\<close>.\<close>

definition label_offset :: "real \<Rightarrow> real \<Rightarrow> real \<Rightarrow> point" where
  "label_offset xoffset yoffset zoffset = (- yoffset, - zoffset, xoffset)"

definition make_actor_label ::
  "externals \<Rightarrow> atlas \<Rightarrow> actor one_or_many \<Rightarrow> pyval \<Rightarrow> pyval \<Rightarrow> pyval \<Rightarrow> pyval \<Rightarrow>
     real \<Rightarrow> real \<Rightarrow> real \<Rightarrow> py_error + mesh list" where
  "make_actor_label env atl actors labs sz col radius xoffset yoffset zoffset =
     (let offset = label_offset xoffset yoffset zoffset in
      case label_loop env atl sz radius offset (col, [])
             (zip (listify actors) (listify_val labs)) of
        Inl e \<Rightarrow> Inl e
      | Inr st \<Rightarrow> Inr (snd st))"

section \<open>Methods of the Actor\<close>

text \<open>\<^verbatim>\<open>Actor.center\<close>: \<^verbatim>\<open>self.mesh.center_of_mass()\<close>.\<close>

definition center :: "externals \<Rightarrow> actor \<Rightarrow> point" where
  "center env self = center_of_mass env (mesh self)"

text \<open>
  Reading an attribute that the class does not declare: the instance's
  \<^verbatim>\<open>__dict__\<close> first, then \<^verbatim>\<open>__getattr__\<close>. A value that \<^verbatim>\<open>__getattr__\<close> finds on the
  mesh is a \<open>pyval\<close>: it is no mapping for \<^verbatim>\<open>**\<close> or for \<^verbatim>\<open>["lw"]\<close>
  (\<^verbatim>\<open>TypeError\<close>) and has no method \<^verbatim>\<open>silhouette\<close> (\<^verbatim>\<open>AttributeError\<close>).
\<close>

definition get_label_str :: "actor \<Rightarrow> py_error + pyval" where
  "get_label_str self =
     (case label_str self of Some v \<Rightarrow> Inr v | None \<Rightarrow> Actor_getattr self ''_label_str'')"

definition get_label_kwargs :: "actor \<Rightarrow> py_error + label_config" where
  "get_label_kwargs self =
     (case label_kwargs self of
        Some kw \<Rightarrow> Inr kw
      | None \<Rightarrow>
          (case Actor_getattr self ''_label_kwargs'' of
             Inl e \<Rightarrow> Inl e
           | Inr v \<Rightarrow> Inl TypeError))"




definition opt_default :: "'a option \<Rightarrow> 'a \<Rightarrow> 'a" where
  "opt_default x d = (case x of None \<Rightarrow> d | Some v \<Rightarrow> v)"

text \<open>
  \<^verbatim>\<open>Actor.make_label(atlas)\<close>. A method returns the actor after the call together
  with what the call returned or raised, so that what an exception leaves behind
  is part of the result. The keyword arguments missing from \<^verbatim>\<open>_label_kwargs\<close> take
  the defaults of \<^verbatim>\<open>make_actor_label\<close>.
\<close>

definition make_label :: "externals \<Rightarrow> atlas \<Rightarrow> actor \<Rightarrow> actor \<times> (py_error + actor list)" where
  "make_label env atl self =
     (case get_label_str self of
        Inl e \<Rightarrow> (self, Inl e)
      | Inr lstr \<Rightarrow>
     (case get_label_kwargs self of
        Inl e \<Rightarrow> (self, Inl e)
      | Inr kw \<Rightarrow>
     (case make_actor_label env atl (Single self) lstr
             (opt_default (kw_size kw) (IntV 300))
             (opt_default (kw_color kw) NoneV)
             (opt_default (kw_radius kw) (IntV 100))
             (opt_default (kw_xoffset kw) 0)
             (opt_default (kw_yoffset kw) (- 500))
             (opt_default (kw_zoffset kw) 0) of
        Inl e \<Rightarrow> (self, Inl e)
      | Inr labs \<Rightarrow>
          (let self1 = set_needs_label False self;
               lbls = map (\<lambda>label. make_actor label (name self1) ''label'') labs;
               self2 = set_labels lbls self1
           in (self2, Inr lbls)))))"


text \<open>\<^verbatim>\<open>Actor.mirror(axis, origin, atlas)\<close>.\<close>

definition resolve_axis :: "int \<Rightarrow> string" where
  "resolve_axis axis_ind = (if axis_ind = 0 then ''x'' else if axis_ind = 1 then ''y'' else ''z'')"

definition mirror ::
  "externals \<Rightarrow> actor \<Rightarrow> string \<Rightarrow> point option \<Rightarrow> atlas option \<Rightarrow> actor \<times> (py_error + unit)" where
  "mirror env self axis origin atl =
     (if axis \<in> set [''sagittal'', ''vertical'', ''frontal''] then
        (let anatomical_space =
               (case atl of Some a \<Rightarrow> space a | None \<Rightarrow> AnatomicalSpace env ''asr'')
         in case get_axis_idx anatomical_space axis of
              Inl e \<Rightarrow> (self, Inl e)
            | Inr axis_ind \<Rightarrow>
                (set_mesh (mirror_mesh env (mesh self) (resolve_axis axis_ind) origin) self,
                 Inr ()))
      else (set_mesh (mirror_mesh env (mesh self) axis origin) self, Inr ()))"

section \<open>Notions used to state the results\<close>

text \<open>
  What one pass of the loop appends for the pair \<open>(act, label)\<close> when the colour in
  force is \<open>col\<close> and the label is placed at \<open>p\<close>: the text, then the marker
  unless the radius is \<^verbatim>\<open>None\<close>.
\<close>

definition pair_labels ::
  "externals \<Rightarrow> pyval \<Rightarrow> pyval \<Rightarrow> pyval \<Rightarrow> actor \<times> pyval \<Rightarrow> point \<Rightarrow> mesh list" where
  "pair_labels env sz radius col pair p =
     label_text env (snd pair) sz col p #
       (if radius \<noteq> NoneV then [label_marker env (fst pair) radius col p] else [])"

text \<open>The colour in force after the test \<^verbatim>\<open>if color is None\<close> of line 48.\<close>

definition color_in_force :: "pyval \<Rightarrow> pyval" where
  "color_in_force col = (if col = NoneV then default_color else col)"

text \<open>The mesh that \<^verbatim>\<open>__getattr__\<close> consults for an attribute name.\<close>

definition consulted_mesh :: "actor \<Rightarrow> string \<Rightarrow> mesh" where
  "consulted_mesh self attr =
     (if attr = ''center_of_mass'' then mesh self
      else (case umesh self of Some m2 \<Rightarrow> m2 | None \<Rightarrow> mesh self))"

section \<open>Sample collaborators and inputs\<close>

text \<open>
  Small instances of the external interfaces and a few actors, on which the
  definitions are evaluated at concrete inputs. The sample space orders its axes
  by the letters of its origin, as \<^verbatim>\<open>AnatomicalSpace("asr")\<close> does; the sample
  atlas knows the points of a cube of side 1000 and splits it in two hemispheres
  along the third coordinate; the sample engine takes the mean of the vertices
  as centre of mass, the nearest vertex as closest point, and reflects vertices
  through the origin's coordinate.
\<close>

fun index_of :: "string \<Rightarrow> string list \<Rightarrow> py_error + int" where
  "index_of x [] = Inl ValueError"
| "index_of x (y # ys) =
     (if x = y then Inr 0
      else (case index_of x ys of Inl e \<Rightarrow> Inl e | Inr i \<Rightarrow> Inr (i + 1)))"

definition axis_of_letter :: "char \<Rightarrow> string" where
  "axis_of_letter c =
     (if c \<in> set ''ap'' then ''sagittal''
      else if c \<in> set ''si'' then ''vertical'' else ''frontal'')"

definition sample_space :: "string \<Rightarrow> anatomical_space" where
  "sample_space origin = \<lparr>get_axis_idx = (\<lambda>axis. index_of axis (map axis_of_letter origin))\<rparr>"

definition sample_hemisphere :: "point \<Rightarrow> py_error + string" where
  "sample_hemisphere p =
     (case p of (a, b, c) \<Rightarrow>
        if 0 \<le> a \<and> a < 1000 \<and> 0 \<le> b \<and> b < 1000 \<and> 0 \<le> c \<and> c < 1000
        then Inr (if c < 500 then ''left'' else ''right'')
        else Inl IndexError)"

definition sample_atlas :: atlas where
  "sample_atlas =
     \<lparr>hemisphere_from_coords = sample_hemisphere,
      mirror_point_across_hemispheres = (\<lambda>p. case p of (a, b, c) \<Rightarrow> Inr (a, b, 1000 - c)),
      space = sample_space ''asr''\<rparr>"

definition centroid :: "point list \<Rightarrow> point" where
  "centroid vs =
     (if vs = [] then (0, 0, 0)
      else (sum_list (map fst vs) / real (length vs),
            sum_list (map (\<lambda>v. fst (snd v)) vs) / real (length vs),
            sum_list (map (\<lambda>v. snd (snd v)) vs) / real (length vs)))"

definition dist2 :: "point \<Rightarrow> point \<Rightarrow> real" where
  "dist2 p q =
     (case p of (a, b, c) \<Rightarrow> case q of (d, e, f) \<Rightarrow>
        (a - d) * (a - d) + (b - e) * (b - e) + (c - f) * (c - f))"

fun nearest :: "point \<Rightarrow> point \<Rightarrow> point list \<Rightarrow> point" where
  "nearest p best [] = best"
| "nearest p best (v # vs) =
     (if dist2 p v < dist2 p best then nearest p v vs else nearest p best vs)"

definition reflect :: "string \<Rightarrow> point \<Rightarrow> point \<Rightarrow> point" where
  "reflect axis orig p =
     (case orig of (d, e, f) \<Rightarrow> case p of (a, b, c) \<Rightarrow>
        if axis = ''x'' then (2 * d - a, b, c)
        else if axis = ''y'' then (a, 2 * e - b, c)
        else if axis = ''z'' then (a, b, 2 * f - c)
        else (a, b, c))"

definition half_turn_x :: "point \<Rightarrow> point" where
  "half_turn_x p = (case p of (a, b, c) \<Rightarrow> (a, - b, - c))"

definition half_turn_y :: "point \<Rightarrow> point" where
  "half_turn_y p = (case p of (a, b, c) \<Rightarrow> (- a, b, - c))"

definition sample_env :: externals where
  "sample_env =
     \<lparr>center_of_mass = (\<lambda>m. centroid (vertices m)),
      closest_point = (\<lambda>m p. case vertices m of [] \<Rightarrow> p | v # vs \<Rightarrow> nearest p v vs),
      mirror_mesh = (\<lambda>m axis origin.
         m\<lparr>vertices := map (reflect axis (case origin of None \<Rightarrow> (0, 0, 0) | Some orig \<Rightarrow> orig))
                          (vertices m)\<rparr>),
      silhouette_mesh = (\<lambda>m. m\<lparr>attrs := [(''outline'', BoolV True)]\<rparr>),
      rotate_x = (\<lambda>angle m. if angle = 180 then m\<lparr>vertices := map half_turn_x (vertices m)\<rparr> else m),
      rotate_y = (\<lambda>angle m. if angle = 180 then m\<lparr>vertices := map half_turn_y (vertices m)\<rparr> else m),
      compute_normals = mesh_setattr ''normals'' (BoolV True),
      Text3D = (\<lambda>label pos s c depth.
         \<lparr>vertices = [pos], color = c, alpha = FloatV 1, linewidth = IntV 1,
          attrs = [(''txt'', label), (''s'', s)]\<rparr>),
      Sphere = (\<lambda>pos r c res.
         \<lparr>vertices = [pos], color = c, alpha = FloatV 1, linewidth = IntV 1,
          attrs = [(''r'', r)]\<rparr>),
      AnatomicalSpace = sample_space\<rparr>"

definition sample_mesh :: mesh where
  "sample_mesh =
     \<lparr>vertices = [(100, 50, 700), (300, 20, 600), (200, 20, 650)],
      color = StrV ''gold'', alpha = FloatV 1, linewidth = IntV 1,
      attrs = [(''npoints'', IntV 3),
               (''center_of_mass'', CallableV (ListV [FloatV 200, FloatV 30, FloatV 650]))]\<rparr>"

definition sample_umesh :: mesh where
  "sample_umesh =
     \<lparr>vertices = [(- 100, 50, 700), (- 300, 20, 600), (- 200, 20, 650)],
      color = StrV ''gold'', alpha = FloatV 1, linewidth = IntV 1,
      attrs = [(''npoints'', IntV 3),
               (''center_of_mass'', CallableV (ListV [FloatV (- 200), FloatV 30, FloatV 650]))]\<rparr>"

definition sample_actor :: actor where
  "sample_actor = Actor_init sample_mesh (Some ''TH'') (Some ''brain region'') False NoneV NoneV"

text \<open>The sample actor once other code has attached \<^verbatim>\<open>_mesh\<close> and the label and silhouette settings.\<close>

definition prepared_actor :: actor where
  "prepared_actor =
     Actor sample_mesh ''TH'' ''brain region'' False True True False True [] None
       (Some sample_umesh) (Some (StrV ''TH''))
       (Some \<lparr>kw_size = None, kw_color = None, kw_radius = None,
              kw_xoffset = None, kw_yoffset = None, kw_zoffset = None\<rparr>)
       (Some [(''lw'', IntV 2), (''color'', StrV ''black'')])"

section \<open>Auxiliary facts\<close>

subsection \<open>Assignments and selectors\<close>

lemma set_mesh_sel:
  "mesh (set_mesh v a) = v" "name (set_mesh v a) = name a" "br_class (set_mesh v a) = br_class a"
  "needs_label (set_mesh v a) = needs_label a" "labels (set_mesh v a) = labels a"
  "umesh (set_mesh v a) = umesh a"
  by (cases a; simp)+

lemma set_needs_label_sel:
  "needs_label (set_needs_label v a) = v" "name (set_needs_label v a) = name a"
  "mesh (set_needs_label v a) = mesh a" "labels (set_needs_label v a) = labels a"
  by (cases a; simp)+

lemma set_labels_sel:
  "labels (set_labels v a) = v" "needs_label (set_labels v a) = needs_label a"
  "mesh (set_labels v a) = mesh a" "name (set_labels v a) = name a"
  by (cases a; simp)+




lemma Actor_init_sel:
  "mesh (Actor_init m nm cls t col al) =
     (if truthy al then mesh_alpha al (if truthy col then mesh_c col m else m)
      else (if truthy col then mesh_c col m else m))"
  "name (Actor_init m nm cls t col al) = str_or nm ''Actor''"
  "br_class (Actor_init m nm cls t col al) = str_or cls ''None''"
  "is_text (Actor_init m nm cls t col al) = t"
  "needs_label (Actor_init m nm cls t col al) = False"
  "needs_silhouette (Actor_init m nm cls t col al) = False"
  "is_transformed (Actor_init m nm cls t col al) = False"
  "is_added (Actor_init m nm cls t col al) = False"
  "labels (Actor_init m nm cls t col al) = []"
  "silhouette (Actor_init m nm cls t col al) = None"
  by (simp_all add: Actor_init_def Let_def)


lemma mesh_getattr_absent: "\<not> mesh_hasattr m attr \<Longrightarrow> mesh_getattr m attr = Inl AttributeError"
  by (simp add: mesh_hasattr_def mesh_getattr_def split: option.splits)

lemma Actor_getattr_consulted:
  "Actor_getattr self attr = mesh_getattr (consulted_mesh self attr) attr"
  by (auto simp: Actor_getattr_def consulted_mesh_def mesh_attributes_def mesh_hasattr_def
      mesh_getattr_def split: option.splits)

lemma Actor_getattr_error: "Actor_getattr self attr = Inl e \<Longrightarrow> e = AttributeError"
  by (auto simp: Actor_getattr_def mesh_getattr_def split: if_splits option.splits)

lemma mirror_literal:
  "axis \<notin> set [''sagittal'', ''vertical'', ''frontal''] \<Longrightarrow>
   mirror env self axis origin atl = (set_mesh (mirror_mesh env (mesh self) axis origin) self, Inr ())"
  by (simp add: mirror_def)

subsection \<open>\<^verbatim>\<open>np.argmin\<close> finds the first minimum\<close>

lemma argmin_from_spec:
  "best < i \<Longrightarrow> length pre = i \<Longrightarrow> pre ! best = bv \<Longrightarrow> (\<forall>j<i. bv \<le> pre ! j) \<Longrightarrow>
   (\<forall>j<best. bv < pre ! j) \<Longrightarrow>
   argmin_from best bv i xs < i + length xs \<and>
   (\<forall>j < i + length xs. (pre @ xs) ! (argmin_from best bv i xs) \<le> (pre @ xs) ! j) \<and>
   (\<forall>j < argmin_from best bv i xs. (pre @ xs) ! (argmin_from best bv i xs) < (pre @ xs) ! j)"
proof (induction xs arbitrary: best bv i pre)
  case Nil
  then show ?case by simp
next
  case (Cons x xs)
  show ?case
  proof (cases "x < bv")
    case True
    have a: "i < Suc i" by simp
    have b: "length (pre @ [x]) = Suc i" using Cons.prems by simp
    have c: "(pre @ [x]) ! i = x" using Cons.prems by (simp add: nth_append)
    have d: "\<forall>j<Suc i. x \<le> (pre @ [x]) ! j"
      using Cons.prems True by (auto simp: nth_append less_Suc_eq)
    have e: "\<forall>j<i. x < (pre @ [x]) ! j"
      using Cons.prems True by (auto simp: nth_append)
    from Cons.IH[OF a b c d e] True show ?thesis by simp
  next
    case False
    have a: "best < Suc i" using Cons.prems by simp
    have b: "length (pre @ [x]) = Suc i" using Cons.prems by simp
    have c: "(pre @ [x]) ! best = bv" using Cons.prems by (simp add: nth_append)
    have d: "\<forall>j<Suc i. bv \<le> (pre @ [x]) ! j"
      using Cons.prems False by (auto simp: nth_append less_Suc_eq)
    have e: "\<forall>j<best. bv < (pre @ [x]) ! j"
      using Cons.prems by (auto simp: nth_append)
    from Cons.IH[OF a b c d e] False show ?thesis by simp
  qed
qed

lemma argmin_spec:
  "xs \<noteq> [] \<Longrightarrow> \<exists>i. argmin xs = Inr i \<and> i < length xs \<and>
     (\<forall>j < length xs. xs ! i \<le> xs ! j) \<and> (\<forall>j < i. xs ! i < xs ! j)"
proof (cases xs)
  case Nil
  assume "xs \<noteq> []"
  with Nil show ?thesis by simp
next
  case (Cons x ys)
  have "argmin_from 0 x 1 ys < 1 + length ys \<and>
   (\<forall>j < 1 + length ys. ([x] @ ys) ! (argmin_from 0 x 1 ys) \<le> ([x] @ ys) ! j) \<and>
   (\<forall>j < argmin_from 0 x 1 ys. ([x] @ ys) ! (argmin_from 0 x 1 ys) < ([x] @ ys) ! j)"
    by (rule argmin_from_spec) auto
  with Cons show ?thesis by simp
qed

subsection \<open>The loop of the label synthesizer\<close>

lemma color_in_force_idem: "color_in_force (color_in_force col) = color_in_force col"
  by (simp add: color_in_force_def default_color_def)

lemma color_in_force_not_None: "color_in_force col \<noteq> NoneV"
  by (simp add: color_in_force_def default_color_def)


lemma label_iteration_run:
  assumes "anchor_point offset (vertices (mesh (fst pair))) = Inr p"
    and "hemisphere_correct atl p = Inr q"
  shows "label_iteration env atl sz radius offset (col, acc) pair =
           Inr (color_in_force col, acc @ pair_labels env sz radius (color_in_force col) pair q)"
  using assms
  by (cases pair) (simp add: label_iteration_def pair_labels_def color_in_force_def Let_def)




lemma label_loop_run:
  assumes "list_all2 (\<lambda>pair pq. anchor_point offset (vertices (mesh (fst pair))) = Inr (fst pq) \<and>
              hemisphere_correct atl (fst pq) = Inr (snd pq)) pairs pqs"
  shows "label_loop env atl sz radius offset (col, acc) pairs =
           Inr (if pairs = [] then col else color_in_force col,
                acc @ concat (map2 (\<lambda>pair pq. pair_labels env sz radius (color_in_force col) pair (snd pq))
                                pairs pqs))"
  using assms
proof (induction pairs pqs arbitrary: col acc rule: list_all2_induct)
  case Nil
  then show ?case by simp
next
  case (Cons pair pairs pq pqs)
  have it: "label_iteration env atl sz radius offset (col, acc) pair =
      Inr (color_in_force col, acc @ pair_labels env sz radius (color_in_force col) pair (snd pq))"
    using Cons.hyps(1) by (intro label_iteration_run [where p = "fst pq"]) simp_all
  show ?case
    using Cons.IH [of "color_in_force col"
        "acc @ pair_labels env sz radius (color_in_force col) pair (snd pq)"]
    by (simp add: it color_in_force_idem)
qed

lemma length_pair_labels:
  "length (pair_labels env sz radius col pair q) = (if radius \<noteq> NoneV then 2 else 1)"
  by (simp add: pair_labels_def)

lemma length_concat_pair_labels:
  "length pairs = length pqs \<Longrightarrow>
   length (concat (map2 (\<lambda>pair pq. pair_labels env sz radius col pair (f pq)) pairs pqs)) =
     (if radius \<noteq> NoneV then 2 else 1) * length pairs"
  by (induction pairs pqs rule: list_induct2) (simp_all add: length_pair_labels)

lemma make_actor_label_run:
  assumes "list_all2 (\<lambda>pair pq.
              anchor_point (label_offset xo yo zo) (vertices (mesh (fst pair))) = Inr (fst pq) \<and>
              hemisphere_correct atl (fst pq) = Inr (snd pq))
             (zip (listify actors) (listify_val labs)) pqs"
  shows "make_actor_label env atl actors labs sz col radius xo yo zo =
           Inr (concat (map2 (\<lambda>pair pq. pair_labels env sz radius (color_in_force col) pair (snd pq))
                          (zip (listify actors) (listify_val labs)) pqs))"
  using label_loop_run [OF assms, of env sz radius col "[]"]
  by (simp add: make_actor_label_def Let_def)

lemma make_actor_label_count:
  assumes "list_all2 (\<lambda>pair pq.
              anchor_point (label_offset xo yo zo) (vertices (mesh (fst pair))) = Inr (fst pq) \<and>
              hemisphere_correct atl (fst pq) = Inr (snd pq))
             (zip (listify actors) (listify_val labs)) pqs"
  shows "\<exists>objs. make_actor_label env atl actors labs sz col radius xo yo zo = Inr objs \<and>
           length objs = (if radius \<noteq> NoneV then 2 else 1) *
                           length (zip (listify actors) (listify_val labs))"
  using make_actor_label_run [OF assms, of env sz col radius]
    length_concat_pair_labels [OF list_all2_lengthD [OF assms], of env sz radius "color_in_force col" snd]
  by simp

subsection \<open>The sample inputs\<close>

lemma sample_anchor:
  "anchor_point (label_offset 0 (- 500) 0) (vertices sample_mesh) = Inr (800, - 180, - 700)"
  by (simp add: anchor_point_def label_offset_def default_offset_def padd_def neg_third_def
      second_coord_def sample_mesh_def)


lemma sample_actor_mesh: "mesh sample_actor = sample_mesh" "mesh prepared_actor = sample_mesh"
  by (simp_all add: sample_actor_def prepared_actor_def Actor_init_sel)

section \<open>The constructor\<close>

lemma init_color_applied:
  "truthy col \<Longrightarrow> color (mesh (Actor_init m nm cls t col al)) = col"
  by (simp add: Actor_init_sel mesh_c_def mesh_alpha_def)

lemma init_alpha_applied:
  "truthy al \<Longrightarrow> alpha (mesh (Actor_init m nm cls t col al)) = al"
  by (simp add: Actor_init_sel mesh_c_def mesh_alpha_def)

lemma init_color_none:
  "color (mesh (Actor_init m nm cls t NoneV al)) = color m"
  by (simp add: Actor_init_sel mesh_c_def mesh_alpha_def)

text \<open>
  C9: constructing an actor with a colour and an opacity sets both on the mesh, and
  constructing with colour \<^verbatim>\<open>None\<close> leaves the mesh's colour alone. The constructor
  tests \<^verbatim>\<open>if alpha:\<close>, so the opacity \<open>0.0\<close>, although given, is not set: the mesh
  built with colour \<^verbatim>\<open>"red"\<close> and opacity \<open>0.0\<close> has the colour and keeps its
  former opacity \<open>1\<close>.
\<close>

theorem init_alpha_zero_ignored:
  "alpha (mesh (Actor_init sample_mesh (Some ''hippocampus'') None False (StrV ''red'') (FloatV 0)))
     = FloatV 1 \<and>
   color (mesh (Actor_init sample_mesh (Some ''hippocampus'') None False (StrV ''red'') (FloatV 0)))
     = StrV ''red''"
  by (simp add: Actor_init_sel mesh_c_def mesh_alpha_def sample_mesh_def)

section \<open>Attribute delegation\<close>

text \<open>
  C6, as amended: an attribute that the actor does not define is answered from one
  mesh, the primary mesh for \<^verbatim>\<open>center_of_mass\<close> and when no \<^verbatim>\<open>_mesh\<close> is
  attached, the secondary \<^verbatim>\<open>_mesh\<close> otherwise. The answer is what that mesh gives:
  its value when it has the attribute, an \<^verbatim>\<open>AttributeError\<close> when it has not.
\<close>

theorem getattr_delegation:
  "Actor_getattr self attr = mesh_getattr (consulted_mesh self attr) attr \<and>
   (\<not> mesh_hasattr (consulted_mesh self attr) attr \<longrightarrow>
      Actor_getattr self attr = Inl AttributeError) \<and>
   (\<forall>v. map_of (attrs (consulted_mesh self attr)) attr = Some v \<longrightarrow>
      Actor_getattr self attr = Inr v)"
  by (auto simp: Actor_getattr_def consulted_mesh_def mesh_attributes_def mesh_hasattr_def
      mesh_getattr_def split: option.splits)

theorem getattr_delegation_witness:
  "Actor_getattr prepared_actor ''npoints'' = Inr (IntV 3) \<and>
   Actor_getattr prepared_actor ''volume'' = Inl AttributeError \<and>
   Actor_getattr prepared_actor ''center_of_mass'' =
     Inr (CallableV (ListV [FloatV 200, FloatV 30, FloatV 650]))"
  using getattr_delegation [of prepared_actor "''npoints''"]
    getattr_delegation [of prepared_actor "''volume''"]
    getattr_delegation [of prepared_actor "''center_of_mass''"]
  by (simp add: consulted_mesh_def prepared_actor_def sample_umesh_def sample_mesh_def
      mesh_hasattr_def mesh_getattr_def)

text \<open>
  C6 as stated prefers \<^verbatim>\<open>_mesh\<close> whenever one is attached. For \<^verbatim>\<open>center_of_mass\<close>
  the actor answers from the primary mesh although \<^verbatim>\<open>_mesh\<close> is attached and has
  the attribute with another value.
\<close>

theorem getattr_center_of_mass_counterexample:
  "umesh prepared_actor = Some sample_umesh \<and>
   mesh_getattr sample_umesh ''center_of_mass'' =
     Inr (CallableV (ListV [FloatV (- 200), FloatV 30, FloatV 650])) \<and>
   Actor_getattr prepared_actor ''center_of_mass'' =
     Inr (CallableV (ListV [FloatV 200, FloatV 30, FloatV 650])) \<and>
   Actor_getattr prepared_actor ''center_of_mass'' \<noteq> mesh_getattr sample_umesh ''center_of_mass''"
  by (simp add: Actor_getattr_def mesh_attributes_def prepared_actor_def sample_umesh_def
      sample_mesh_def mesh_hasattr_def mesh_getattr_def)

section \<open>Mirroring and the centre\<close>

text \<open>
  C2: an anatomical synonym is resolved through the atlas's space when an atlas is
  given and through \<^verbatim>\<open>AnatomicalSpace("asr")\<close> otherwise; the index 0, 1 or 2 it
  resolves to selects the axis \<^verbatim>\<open>"x"\<close>, \<^verbatim>\<open>"y"\<close> or \<^verbatim>\<open>"z"\<close> that the mesh is
  mirrored about, so the call does what the call with that literal axis does.
\<close>

theorem mirror_resolves_synonym:
  assumes "axis \<in> set [''sagittal'', ''vertical'', ''frontal'']"
    and "get_axis_idx (case atl of Some a \<Rightarrow> space a | None \<Rightarrow> AnatomicalSpace env ''asr'') axis
           = Inr i"
    and "i \<in> {0, 1, 2}"
  shows "mirror env self axis origin atl =
           (set_mesh (mirror_mesh env (mesh self) ([''x'', ''y'', ''z''] ! nat i) origin) self, Inr ()) \<and>
         mirror env self axis origin atl = mirror env self ([''x'', ''y'', ''z''] ! nat i) origin atl"
proof -
  have lit: "[''x'', ''y'', ''z''] ! nat i \<notin> set [''sagittal'', ''vertical'', ''frontal'']"
    using assms(3) by auto
  have res: "resolve_axis i = [''x'', ''y'', ''z''] ! nat i"
    using assms(3) by (auto simp: resolve_axis_def)
  have "mirror env self axis origin atl =
          (set_mesh (mirror_mesh env (mesh self) (resolve_axis i) origin) self, Inr ())"
    using assms(1,2) by (simp add: mirror_def Let_def)
  then show ?thesis
    using mirror_literal [OF lit] res by simp
qed

theorem mirror_resolves_synonym_witness:
  "get_axis_idx (AnatomicalSpace sample_env ''asr'') ''sagittal'' = Inr 0 \<and>
   mirror sample_env sample_actor ''sagittal'' None None =
     mirror sample_env sample_actor ''x'' None None \<and>
   vertices (mesh (fst (mirror sample_env sample_actor ''sagittal'' None None))) =
     [(- 100, 50, 700), (- 300, 20, 600), (- 200, 20, 650)]"
proof -
  have a: "''sagittal'' \<in> set [''sagittal'', ''vertical'', ''frontal'']" by simp
  have b: "get_axis_idx (case None of Some a \<Rightarrow> space a | None \<Rightarrow> AnatomicalSpace sample_env ''asr'')
             ''sagittal'' = Inr 0"
    by (simp add: sample_env_def sample_space_def axis_of_letter_def)
  have c: "(0::int) \<in> {0, 1, 2}" by simp
  have eq: "mirror sample_env sample_actor ''sagittal'' None None =
     mirror sample_env sample_actor ''x'' None None"
  proof -
    have "mirror sample_env sample_actor ''sagittal'' None None =
      mirror sample_env sample_actor ([''x'', ''y'', ''z''] ! nat 0) None None"
      using mirror_resolves_synonym [OF a b c, of sample_actor None] by (rule conjunct2)
    then show ?thesis by simp
  qed
  have v: "vertices (mesh (fst (mirror sample_env sample_actor ''x'' None None))) =
     [(- 100, 50, 700), (- 300, 20, 600), (- 200, 20, 650)]"
    by (simp add: mirror_def set_mesh_sel sample_env_def sample_actor_def Actor_init_sel
        sample_mesh_def reflect_def)
  show ?thesis using b eq v by simp
qed

text \<open>
  C5: the centre is the centre of mass of the mesh the actor holds when it is read:
  once the mesh is replaced the centre is the new mesh's, and after a mirror the
  actor holds the mirrored mesh and the centre is that mesh's.
\<close>

theorem center_follows_mesh:
  assumes "mirror env self axis origin atl = (self', Inr u)"
  shows "center env self = center_of_mass env (mesh self) \<and>
         center env (set_mesh m self) = center_of_mass env m \<and>
         center env self' = center_of_mass env (mesh self') \<and>
         (\<exists>ax. mesh self' = mirror_mesh env (mesh self) ax origin \<and>
               center env self' = center_of_mass env (mirror_mesh env (mesh self) ax origin))"
  using assms
  by (auto simp: center_def mirror_def Let_def set_mesh_sel split: if_splits sum.splits)

theorem center_follows_mesh_witness:
  "mirror sample_env sample_actor ''x'' None None =
     (set_mesh (mirror_mesh sample_env sample_mesh ''x'' None) sample_actor, Inr ()) \<and>
   center sample_env sample_actor = (200, 30, 650) \<and>
   center sample_env (set_mesh (mirror_mesh sample_env sample_mesh ''x'' None) sample_actor) =
     (- 200, 30, 650)"
proof -
  have m: "mirror sample_env sample_actor ''x'' None None =
     (set_mesh (mirror_mesh sample_env sample_mesh ''x'' None) sample_actor, Inr ())"
    by (simp add: mirror_def sample_actor_def Actor_init_sel)
  show ?thesis
    using center_follows_mesh [OF m] m
    by (simp add: set_mesh_sel sample_env_def sample_actor_def Actor_init_sel sample_mesh_def
        reflect_def centroid_def)
qed

section \<open>Silhouettes and labels\<close>



text \<open>
  C10: when the label text or the label settings are attached neither to the actor
  nor to the mesh that \<^verbatim>\<open>__getattr__\<close> consults, \<^verbatim>\<open>make_label\<close> raises
  \<^verbatim>\<open>AttributeError\<close> and leaves the actor as it was, the needs-label flag and the
  labels included.
\<close>

theorem make_label_unset_raises:
  assumes "(label_str self = None \<and> \<not> mesh_hasattr (consulted_mesh self ''_label_str'') ''_label_str'') \<or>
           (label_kwargs self = None \<and>
              \<not> mesh_hasattr (consulted_mesh self ''_label_kwargs'') ''_label_kwargs'')"
  shows "make_label env atl self = (self, Inl AttributeError) \<and>
         needs_label (fst (make_label env atl self)) = needs_label self \<and>
         labels (fst (make_label env atl self)) = labels self"
proof -
  have "make_label env atl self = (self, Inl AttributeError)"
  proof (cases "get_label_str self")
    case (Inl e)
    then have "e = AttributeError"
      by (auto simp: get_label_str_def split: option.splits dest: Actor_getattr_error)
    with Inl show ?thesis by (simp add: make_label_def)
  next
    case (Inr v)
    then have "\<not> (label_str self = None \<and>
        \<not> mesh_hasattr (consulted_mesh self ''_label_str'') ''_label_str'')"
      by (auto simp: get_label_str_def Actor_getattr_consulted mesh_getattr_def
          mesh_hasattr_def split: option.splits)
    with assms have k: "label_kwargs self = None"
      and h: "\<not> mesh_hasattr (consulted_mesh self ''_label_kwargs'') ''_label_kwargs''"
      by blast+
    have "get_label_kwargs self = Inl AttributeError"
      using k h
      by (simp add: get_label_kwargs_def Actor_getattr_consulted mesh_getattr_absent)
    with Inr show ?thesis by (simp add: make_label_def)
  qed
  then show ?thesis by simp
qed

theorem make_label_unset_raises_witness:
  "label_str sample_actor = None \<and> label_kwargs sample_actor = None \<and>
   make_label sample_env sample_atlas sample_actor = (sample_actor, Inl AttributeError) \<and>
   needs_label (fst (make_label sample_env sample_atlas sample_actor)) = needs_label sample_actor \<and>
   labels (fst (make_label sample_env sample_atlas sample_actor)) = labels sample_actor"
proof -
  have "label_str sample_actor = None \<and>
    \<not> mesh_hasattr (consulted_mesh sample_actor ''_label_str'') ''_label_str''"
    by (simp add: sample_actor_def Actor_init_def consulted_mesh_def mesh_hasattr_def
        sample_mesh_def)
  then show ?thesis
    using make_label_unset_raises [of sample_actor sample_env sample_atlas]
    by (simp add: sample_actor_def Actor_init_def)
qed

section \<open>The label synthesizer\<close>

text \<open>
  C8: for a pair whose mesh has a vertex, the anchor point is the first vertex with
  the least second coordinate, plus the offset \<open>(-yoffset, -zoffset, xoffset)\<close>, plus
  the bias \<open>(0, -200, 100)\<close>, with the third coordinate negated.
\<close>

theorem anchor_point_formula:
  assumes "vertices (mesh act) \<noteq> []"
  shows "\<exists>i < length (vertices (mesh act)).
           (\<forall>j < length (vertices (mesh act)).
              second_coord (vertices (mesh act) ! i) \<le> second_coord (vertices (mesh act) ! j)) \<and>
           (\<forall>j < i. second_coord (vertices (mesh act) ! i) < second_coord (vertices (mesh act) ! j)) \<and>
           anchor_point (label_offset xoffset yoffset zoffset) (vertices (mesh act)) =
             Inr (case vertices (mesh act) ! i of (a, b, c) \<Rightarrow>
                    (a + (- yoffset + 0), b + (- zoffset + (- 200)), - (c + (xoffset + 100))))"
proof -
  let ?pts = "vertices (mesh act)"
  from assms have "map second_coord ?pts \<noteq> []" by simp
  from argmin_spec [OF this] obtain i where
    i: "argmin (map second_coord ?pts) = Inr i" "i < length ?pts"
    "\<forall>j < length ?pts. map second_coord ?pts ! i \<le> map second_coord ?pts ! j"
    "\<forall>j < i. map second_coord ?pts ! i < map second_coord ?pts ! j"
    by auto
  have "anchor_point (label_offset xoffset yoffset zoffset) ?pts =
      Inr (case ?pts ! i of (a, b, c) \<Rightarrow>
             (a + (- yoffset + 0), b + (- zoffset + (- 200)), - (c + (xoffset + 100))))"
    using i(1)
    by (simp add: anchor_point_def label_offset_def default_offset_def padd_def neg_third_def
        split: prod.splits)
  with i(2,3,4) show ?thesis by auto
qed

theorem anchor_point_formula_witness:
  "vertices (mesh sample_actor) = [(100, 50, 700), (300, 20, 600), (200, 20, 650)] \<and>
   anchor_point (label_offset 0 (- 500) 0) (vertices (mesh sample_actor)) = Inr (800, - 180, - 700) \<and>
   (\<exists>i < length (vertices (mesh sample_actor)).
      anchor_point (label_offset 0 (- 500) 0) (vertices (mesh sample_actor)) =
        Inr (case vertices (mesh sample_actor) ! i of (a, b, c) \<Rightarrow>
               (a + (- (- 500) + 0), b + (- 0 + (- 200)), - (c + (0 + 100)))))"
proof -
  have v: "vertices (mesh sample_actor) = [(100, 50, 700), (300, 20, 600), (200, 20, 650)]"
    by (simp add: sample_actor_mesh sample_mesh_def)
  then have ne: "vertices (mesh sample_actor) \<noteq> []" by simp
  from anchor_point_formula [OF ne, of 0 "- 500" 0]
  have "\<exists>i < length (vertices (mesh sample_actor)).
      anchor_point (label_offset 0 (- 500) 0) (vertices (mesh sample_actor)) =
        Inr (case vertices (mesh sample_actor) ! i of (a, b, c) \<Rightarrow>
               (a + (- (- 500) + 0), b + (- 0 + (- 200)), - (c + (0 + 100))))"
    by blast
  with v sample_anchor show ?thesis by (simp add: sample_actor_mesh)
qed







end
